theory Spec2Isabelle
  imports Complex_Main
begin

section \<open>Python values used by \<^verbatim>\<open>basic_futures_bot.py\<close>\<close>

subsection \<open>Strings\<close>

text \<open>
  A Python \<^verbatim>\<open>str\<close> is a sequence of Unicode code points, and \<^verbatim>\<open>len\<close> counts code points.
  A string is therefore a list of code points; \<open>str\<close> turns an ASCII literal of the
  program text into one.
\<close>

type_synonym pystr = "nat list"

definition str :: "string \<Rightarrow> pystr" where
  "str = map of_char"

text \<open>
  The case mapping and the decimal-digit property of a code point come from the Unicode
  character database compiled into the interpreter. For code points below U+0100 the
  tables are written out below. For the code points from U+0100 on they are a parameter
  of the model: \<open>ucd_upper c\<close> is the full uppercase mapping of \<open>c\<close> (one to three code
  points) and \<open>ucd_decimal c\<close> its decimal digit value, if it is a decimal digit.
\<close>

record ucd =
  ucd_upper :: "nat \<Rightarrow> nat list"
  ucd_decimal :: "nat \<Rightarrow> nat option"

text \<open>A database with no entry from U+0100 on, for evaluating Latin-1 inputs.\<close>

definition ucd_latin1 :: ucd where
  "ucd_latin1 = \<lparr>ucd_upper = (\<lambda>c. [c]), ucd_decimal = (\<lambda>c. None)\<rparr>"

text \<open>
  \<^verbatim>\<open>str.isspace\<close> of one code point, which is what \<^verbatim>\<open>str.strip()\<close> removes: the
  complete list of the interpreter (Unicode 6.3 and later).
\<close>

definition is_space :: "nat \<Rightarrow> bool" where
  "is_space c \<longleftrightarrow>
     (9 \<le> c \<and> c \<le> 13) \<or> (28 \<le> c \<and> c \<le> 32) \<or> c = 133 \<or> c = 160 \<or> c = 5760 \<or>
     (8192 \<le> c \<and> c \<le> 8202) \<or> c = 8232 \<or> c = 8233 \<or> c = 8239 \<or> c = 8287 \<or> c = 12288"

text \<open>\<^verbatim>\<open>s.strip()\<close>: leading and trailing whitespace removed.\<close>

definition py_strip :: "pystr \<Rightarrow> pystr" where
  "py_strip s = rev (dropWhile is_space (rev (dropWhile is_space s)))"

text \<open>
  The uppercase mapping of one code point. Below U+0100: the letters a-z, the micro sign
  (to U+039C), sharp s (to the two letters SS), the Latin-1 lowercase letters U+00E0 to
  U+00FE without the division sign U+00F7, and y with diaeresis (to U+0178); every other
  code point below U+0100 is unchanged.
\<close>

definition upper_cp :: "ucd \<Rightarrow> nat \<Rightarrow> nat list" where
  "upper_cp U c =
     (if 97 \<le> c \<and> c \<le> 122 then [c - 32]
      else if c < 181 then [c]
      else if c = 181 then [924]
      else if c = 223 then [83, 83]
      else if 224 \<le> c \<and> c \<le> 254 \<and> c \<noteq> 247 then [c - 32]
      else if c = 255 then [376]
      else if c < 256 then [c]
      else ucd_upper U c)"

text \<open>\<^verbatim>\<open>s.upper()\<close>: the mappings of the code points, concatenated.\<close>

definition py_upper :: "ucd \<Rightarrow> pystr \<Rightarrow> pystr" where
  "py_upper U s = concat (map (upper_cp U) s)"

subsection \<open>Floats\<close>

text \<open>
  A Python \<^verbatim>\<open>float\<close> is an IEEE 754 binary64 value: a finite value (a dyadic rational,
  held exactly), an infinity or a NaN. The sign of a zero is not held: \<^verbatim>\<open>-0.0\<close> and
  \<^verbatim>\<open>0.0\<close> compare equal, and the program only ever compares a float with zero.
\<close>

datatype pyfloat = Finite rat | PosInf | NegInf | NaN

text \<open>\<^verbatim>\<open>f <= 0\<close>; a comparison with a NaN is false.\<close>

fun float_le_zero :: "pyfloat \<Rightarrow> bool" where
  "float_le_zero (Finite q) = (q \<le> 0)"
| "float_le_zero PosInf = False"
| "float_le_zero NegInf = True"
| "float_le_zero NaN = False"

text \<open>\<^verbatim>\<open>f > 0\<close>: the value is a positive float.\<close>

fun float_gt_zero :: "pyfloat \<Rightarrow> bool" where
  "float_gt_zero (Finite q) = (0 < q)"
| "float_gt_zero PosInf = True"
| "float_gt_zero NegInf = False"
| "float_gt_zero NaN = False"

text \<open>Rounding the fraction \<open>n / d\<close> to the nearest integer, ties to even.\<close>

definition round_half_even :: "nat \<Rightarrow> nat \<Rightarrow> nat" where
  "round_half_even n d =
     (let q = n div d; r = n mod d
      in if 2 * r < d then q else if d < 2 * r then q + 1 else if even q then q else q + 1)"

fun bit_length :: "nat \<Rightarrow> nat" where
  "bit_length n = (if n = 0 then 0 else Suc (bit_length (n div 2)))"

declare bit_length.simps [simp del]

definition pow2 :: "int \<Rightarrow> rat" where
  "pow2 k = (if 0 \<le> k then 2 ^ nat k else 1 / 2 ^ nat (- k))"

text \<open>The integer \<open>e\<close> with \<open>2^e \<le> n / d < 2^(e+1)\<close>, for positive \<open>n\<close> and \<open>d\<close>.\<close>

definition ilog2 :: "nat \<Rightarrow> nat \<Rightarrow> int" where
  "ilog2 n d =
     (let k = int (bit_length n) - int (bit_length d)
      in if (if 0 \<le> k then d * 2 ^ nat k \<le> n else d \<le> n * 2 ^ nat (- k)) then k else k - 1)"

text \<open>
  The binary64 value nearest to \<open>n / d\<close> (ties to even), negated when \<open>neg\<close>: 53 bits of
  precision, the exponent not below that of the subnormal numbers, and an infinity
  from \<open>2^1024\<close> on. This is the correctly rounded conversion of the interpreter's
  \<^verbatim>\<open>strtod\<close>.
\<close>

definition binary64 :: "bool \<Rightarrow> nat \<Rightarrow> nat \<Rightarrow> pyfloat" where
  "binary64 neg n d =
     (if n = 0 then Finite 0
      else
        let e = max (ilog2 n d) (- 1022);
            s = 52 - e;
            m = (if 0 \<le> s then round_half_even (n * 2 ^ nat s) d
                 else round_half_even n (d * 2 ^ nat (- s)));
            r = of_nat m * pow2 (e - 52)
        in if pow2 1024 \<le> r then (if neg then NegInf else PosInf)
           else Finite (if neg then - r else r))"

subsection \<open>\<^verbatim>\<open>float(value)\<close> of a string\<close>

text \<open>
  The interpreter converts a string to a float in four steps: a string with a non-ASCII
  code point is first rewritten to ASCII (whitespace to a blank, a decimal digit to its
  ASCII digit, and the text is cut after a question mark at the first other code
  point); underscores are accepted between two digits only and dropped; the ASCII
  whitespace at both ends is dropped; the rest must be, as a whole, a decimal literal
  or one of \<^verbatim>\<open>inf\<close>, \<^verbatim>\<open>infinity\<close>, \<^verbatim>\<open>nan\<close> in any letter case, each with an
  optional sign. \<open>None\<close> stands for the \<^verbatim>\<open>ValueError\<close> of \<^verbatim>\<open>float\<close>. (The
  interpreter's limits of \<open>10^9\<close> digits and of the exponent's size are not modelled;
  they only matter for strings of more than \<open>10^9\<close> characters.)
\<close>

definition is_digit :: "nat \<Rightarrow> bool" where
  "is_digit c \<longleftrightarrow> 48 \<le> c \<and> c \<le> 57"

definition is_ascii_space :: "nat \<Rightarrow> bool" where
  "is_ascii_space c \<longleftrightarrow> (9 \<le> c \<and> c \<le> 13) \<or> c = 32"

definition decimal_of :: "ucd \<Rightarrow> nat \<Rightarrow> nat option" where
  "decimal_of U c =
     (if is_digit c then Some (c - 48) else if c < 256 then None else ucd_decimal U c)"

fun transform_ascii :: "ucd \<Rightarrow> pystr \<Rightarrow> pystr" where
  "transform_ascii U [] = []"
| "transform_ascii U (c # cs) =
     (if c < 127 then c # transform_ascii U cs
      else if is_space c then 32 # transform_ascii U cs
      else (case decimal_of U c of
              None \<Rightarrow> [63]
            | Some d \<Rightarrow> (48 + d) # transform_ascii U cs))"

definition to_ascii :: "ucd \<Rightarrow> pystr \<Rightarrow> pystr" where
  "to_ascii U s = (if list_all (\<lambda>c. c < 128) s then s else transform_ascii U s)"

text \<open>An underscore needs a digit before it and a digit after it.\<close>

fun underscores_ok :: "nat \<Rightarrow> pystr \<Rightarrow> bool" where
  "underscores_ok prev [] = (prev \<noteq> 95)"
| "underscores_ok prev (c # cs) =
     ((if c = 95 then is_digit prev else (prev \<noteq> 95 \<or> is_digit c)) \<and> underscores_ok c cs)"

definition drop_underscores :: "pystr \<Rightarrow> pystr option" where
  "drop_underscores s =
     (if 95 \<notin> set s then Some s
      else if underscores_ok 0 s then Some (filter (\<lambda>c. c \<noteq> 95) s)
      else None)"

definition strip_ascii :: "pystr \<Rightarrow> pystr" where
  "strip_ascii s = rev (dropWhile is_ascii_space (rev (dropWhile is_ascii_space s)))"

definition digits_val :: "pystr \<Rightarrow> nat" where
  "digits_val ds = foldl (\<lambda>a c. 10 * a + (c - 48)) 0 ds"

text \<open>An optional sign: whether it is a minus, and the rest.\<close>

fun split_sign :: "pystr \<Rightarrow> bool \<times> pystr" where
  "split_sign [] = (False, [])"
| "split_sign (c # cs) =
     (if c = 45 then (True, cs) else if c = 43 then (False, cs) else (False, c # cs))"

text \<open>
  The exponent part of a literal: nothing, or \<^verbatim>\<open>e\<close>/\<^verbatim>\<open>E\<close>, an optional sign and at
  least one digit.
\<close>

definition parse_exponent :: "pystr \<Rightarrow> int option" where
  "parse_exponent s =
     (case s of
        [] \<Rightarrow> Some 0
      | c # cs \<Rightarrow>
          if c = 101 \<or> c = 69 then
            (let (eneg, ds) = split_sign cs
             in if ds \<noteq> [] \<and> list_all is_digit ds
                then Some (if eneg then - int (digits_val ds) else int (digits_val ds))
                else None)
          else None)"

text \<open>
  An unsigned decimal literal: digits, an optional point and digits, with at least one
  digit in all, and an optional exponent. The value is the fraction \<open>n / d\<close>.
\<close>

definition parse_decimal :: "pystr \<Rightarrow> (nat \<times> nat) option" where
  "parse_decimal s =
     (let ip = takeWhile is_digit s;
          r1 = dropWhile is_digit s;
          (fp, r2) = (case r1 of
                        [] \<Rightarrow> ([], [])
                      | c # cs \<Rightarrow> if c = 46 then (takeWhile is_digit cs, dropWhile is_digit cs)
                                  else ([], r1))
      in if ip = [] \<and> fp = [] then None
         else (case parse_exponent r2 of
                 None \<Rightarrow> None
               | Some ex \<Rightarrow>
                   let m = digits_val (ip @ fp);
                       x = ex - int (length fp)
                   in if 0 \<le> x then Some (m * 10 ^ nat x, 1)
                      else Some (m, 10 ^ nat (- x))))"

definition ascii_upper :: "nat \<Rightarrow> nat" where
  "ascii_upper c = (if 97 \<le> c \<and> c \<le> 122 then c - 32 else c)"

definition parse_inf_or_nan :: "pystr \<Rightarrow> pyfloat option" where
  "parse_inf_or_nan s =
     (let (neg, body) = split_sign s;
          u = map ascii_upper body
      in if u = str ''INF'' \<or> u = str ''INFINITY'' then Some (if neg then NegInf else PosInf)
         else if u = str ''NAN'' then Some NaN
         else None)"

definition py_float :: "ucd \<Rightarrow> pystr \<Rightarrow> pyfloat option" where
  "py_float U v =
     (case drop_underscores (to_ascii U v) of
        None \<Rightarrow> None
      | Some s1 \<Rightarrow>
          let s = strip_ascii s1
          in if s = [] then None
             else (let (neg, body) = split_sign s
                   in case parse_decimal body of
                        Some (n, d) \<Rightarrow> Some (binary64 neg n d)
                      | None \<Rightarrow> parse_inf_or_nan s))"

section \<open>The program\<close>

subsection \<open>Exceptions and data containers\<close>

text \<open>
  The two exception classes the program raises itself, each with its message. A function
  that can raise returns \<open>error + 'a\<close>, with \<open>Inl\<close> for the exception.
\<close>

datatype error = ValueError pystr | TradingBotError pystr

text \<open>\<^verbatim>\<open>OrderParams\<close>: the normalized and validated order parameters.\<close>

record OrderParams =
  symbol :: pystr
  side :: pystr
  order_type :: pystr
  quantity :: pyfloat
  price :: "pyfloat option"
  stop_price :: "pyfloat option"

text \<open>
  The \<^verbatim>\<open>argparse.Namespace\<close> of \<^verbatim>\<open>parse_args\<close>. The four required options are strings
  (possibly empty); an option that was not given is \<^verbatim>\<open>None\<close>.
\<close>

record namespace =
  arg_api_key :: "pystr option"
  arg_api_secret :: "pystr option"
  arg_symbol :: pystr
  arg_side :: pystr
  arg_type :: pystr
  arg_qty :: pystr
  arg_price :: "pystr option"
  arg_stop_price :: "pystr option"

subsection \<open>\<^verbatim>\<open>InputValidator\<close>\<close>

definition validate_symbol :: "ucd \<Rightarrow> pystr \<Rightarrow> error + pystr" where
  "validate_symbol U s =
     (if s = [] \<or> py_strip s = [] then Inl (ValueError (str ''Symbol must not be empty.''))
      else
        let s' = py_upper U (py_strip s)
        in if length s' < 6
           then Inl (ValueError (str ''Symbol looks invalid (too short). Example: BTCUSDT.''))
           else Inr s')"

definition validate_side :: "ucd \<Rightarrow> pystr \<Rightarrow> error + pystr" where
  "validate_side U sd =
     (if sd = [] then Inl (ValueError (str ''Side must be provided (BUY or SELL).''))
      else
        let side_upper = py_upper U (py_strip sd)
        in if side_upper \<notin> {str ''BUY'', str ''SELL''}
           then Inl (ValueError (str ''Side must be BUY or SELL.''))
           else Inr side_upper)"

definition aliases :: "(pystr \<times> pystr) list" where
  "aliases =
     [(str ''MKT'', str ''MARKET''),
      (str ''STOP-LIMIT'', str ''STOP_LIMIT''),
      (str ''STOPLIMIT'', str ''STOP_LIMIT'')]"

text \<open>\<^verbatim>\<open>aliases.get(t, t)\<close>\<close>

definition aliases_get :: "pystr \<Rightarrow> pystr" where
  "aliases_get t = (case map_of aliases t of Some v \<Rightarrow> v | None \<Rightarrow> t)"

definition validate_order_type :: "ucd \<Rightarrow> pystr \<Rightarrow> error + pystr" where
  "validate_order_type U ot =
     (if ot = [] then Inl (ValueError (str ''Order type must be provided.''))
      else
        let t = aliases_get (py_upper U (py_strip ot))
        in if t \<notin> {str ''MARKET'', str ''LIMIT'', str ''STOP_LIMIT''}
           then Inl (ValueError (str ''Order type must be MARKET, LIMIT, or STOP_LIMIT.''))
           else Inr t)"

definition validate_positive_float :: "ucd \<Rightarrow> pystr \<Rightarrow> pystr \<Rightarrow> error + pyfloat" where
  "validate_positive_float U v field_name =
     (case py_float U v of
        None \<Rightarrow> Inl (ValueError (field_name @ str '' must be a number.''))
      | Some f \<Rightarrow>
          if float_le_zero f then Inl (ValueError (field_name @ str '' must be greater than 0.''))
          else Inr f)"

definition validate_order_params :: "ucd \<Rightarrow> namespace \<Rightarrow> error + OrderParams" where
  "validate_order_params U args =
     (case validate_symbol U (arg_symbol args) of Inl e \<Rightarrow> Inl e | Inr sy \<Rightarrow>
      case validate_side U (arg_side args) of Inl e \<Rightarrow> Inl e | Inr sd \<Rightarrow>
      case validate_order_type U (arg_type args) of Inl e \<Rightarrow> Inl e | Inr ot \<Rightarrow>
      case validate_positive_float U (arg_qty args) (str ''Quantity'') of Inl e \<Rightarrow> Inl e | Inr qty \<Rightarrow>
      case (if ot \<in> {str ''LIMIT'', str ''STOP_LIMIT''} then
              (case arg_price args of
                 None \<Rightarrow> Inl (ValueError (str ''Price is required for LIMIT and STOP_LIMIT orders.''))
               | Some v \<Rightarrow>
                   (case validate_positive_float U v (str ''Price'') of
                      Inl e \<Rightarrow> Inl e
                    | Inr f \<Rightarrow> Inr (Some f)))
            else Inr None) of Inl e \<Rightarrow> Inl e | Inr pr \<Rightarrow>
      case (if ot = str ''STOP_LIMIT'' then
              (case arg_stop_price args of
                 None \<Rightarrow> Inl (ValueError (str ''stop-price is required for STOP_LIMIT orders.''))
               | Some v \<Rightarrow>
                   (case validate_positive_float U v (str ''Stop price'') of
                      Inl e \<Rightarrow> Inl e
                    | Inr f \<Rightarrow> Inr (Some f)))
            else Inr None) of Inl e \<Rightarrow> Inl e | Inr sp \<Rightarrow>
      Inr \<lparr>symbol = sy, side = sd, order_type = ot, quantity = qty,
           price = pr, stop_price = sp\<rparr>)"

subsection \<open>\<^verbatim>\<open>BasicBot\<close>\<close>

text \<open>
  The values of the payload dictionary: strings, floats and \<^verbatim>\<open>None\<close>. The dictionary
  is a map from its keys.
\<close>

datatype pyval = PyStr pystr | PyFloat pyfloat | PyNone

type_synonym payload = "string \<rightharpoonup> pyval"

definition opt_float :: "pyfloat option \<Rightarrow> pyval" where
  "opt_float x = (case x of None \<Rightarrow> PyNone | Some f \<Rightarrow> PyFloat f)"

text \<open>\<^verbatim>\<open>BasicBot._build_order_payload\<close>\<close>

definition build_order_payload :: "OrderParams \<Rightarrow> error + payload" where
  "build_order_payload params =
     (let payload = [''symbol'' \<mapsto> PyStr (symbol params),
                     ''side'' \<mapsto> PyStr (side params),
                     ''type'' \<mapsto> PyNone,
                     ''quantity'' \<mapsto> PyFloat (quantity params)]
      in if order_type params = str ''MARKET'' then
           Inr (payload(''type'' \<mapsto> PyStr (str ''MARKET'')))
         else if order_type params = str ''LIMIT'' then
           Inr (payload(''type'' \<mapsto> PyStr (str ''LIMIT''),
                        ''timeInForce'' \<mapsto> PyStr (str ''GTC''),
                        ''price'' \<mapsto> opt_float (price params)))
         else if order_type params = str ''STOP_LIMIT'' then
           Inr (payload(''type'' \<mapsto> PyStr (str ''STOP''),
                        ''timeInForce'' \<mapsto> PyStr (str ''GTC''),
                        ''price'' \<mapsto> opt_float (price params),
                        ''stopPrice'' \<mapsto> opt_float (stop_price params)))
         else Inl (TradingBotError (str ''Unsupported internal order type: '' @ order_type params)))"

text \<open>
  The exchange client is external: \<^verbatim>\<open>self.client.futures_create_order(**payload)\<close>
  returns a response or raises. What it raises is an exception object, of one of the
  three classes of \<^verbatim>\<open>binance.exceptions\<close> that \<^verbatim>\<open>place_order\<close> names or of any other
  class derived from \<^verbatim>\<open>Exception\<close>, with its text \<^verbatim>\<open>str(e)\<close>.
\<close>

datatype exc_class =
  BinanceAPIException | BinanceOrderException | BinanceRequestException | OtherException

datatype client_exc = Raised exc_class pystr

type_synonym 'r client = "payload \<Rightarrow> client_exc + 'r"

text \<open>\<^verbatim>\<open>BasicBot.place_order\<close> (the calls of the logger change no value and are left out).\<close>

definition place_order :: "'r client \<Rightarrow> OrderParams \<Rightarrow> error + 'r" where
  "place_order futures_create_order params =
     (case build_order_payload params of
        Inl e \<Rightarrow> Inl e
      | Inr payload \<Rightarrow>
          (case futures_create_order payload of
             Inr response \<Rightarrow> Inr response
           | Inl (Raised cls msg) \<Rightarrow>
               if cls \<in> {BinanceAPIException, BinanceOrderException, BinanceRequestException}
               then Inl (TradingBotError (str ''Binance API error: '' @ msg))
               else Inl (TradingBotError (str ''Unexpected error while placing order: '' @ msg))))"

subsection \<open>Credentials\<close>

text \<open>Truth value of an optional string: \<^verbatim>\<open>None\<close> and the empty string are false.\<close>

fun truthy :: "pystr option \<Rightarrow> bool" where
  "truthy None = False"
| "truthy (Some s) = (s \<noteq> [])"

text \<open>\<^verbatim>\<open>a or b\<close>\<close>

definition py_or :: "pystr option \<Rightarrow> pystr option \<Rightarrow> pystr option" where
  "py_or a b = (if truthy a then a else b)"

definition credentials_message :: pystr where
  "credentials_message =
     str (''API credentials are required. Provide --api-key / --api-secret or set '' @
          ''BINANCE_API_KEY / BINANCE_API_SECRET environment variables.'')"

text \<open>\<^verbatim>\<open>resolve_credentials\<close>; \<open>getenv\<close> is \<^verbatim>\<open>os.getenv\<close>, the environment of the process.\<close>

definition resolve_credentials :: "namespace \<Rightarrow> (string \<Rightarrow> pystr option) \<Rightarrow> error + pystr \<times> pystr" where
  "resolve_credentials args getenv =
     (let api_key = py_or (arg_api_key args) (getenv ''BINANCE_API_KEY'');
          api_secret = py_or (arg_api_secret args) (getenv ''BINANCE_API_SECRET'')
      in if \<not> truthy api_key \<or> \<not> truthy api_secret then Inl (TradingBotError credentials_message)
         else (case (api_key, api_secret) of
                 (Some k, Some s) \<Rightarrow> Inr (k, s)
               | _ \<Rightarrow> Inl (TradingBotError credentials_message)))"

subsection \<open>Messages for a missing field\<close>

text \<open>
  The two errors \<^verbatim>\<open>validate_order_params\<close> raises itself, when a price or a stop price
  is needed and was not given.
\<close>

definition price_required :: error where
  "price_required = ValueError (str ''Price is required for LIMIT and STOP_LIMIT orders.'')"

definition stop_price_required :: error where
  "stop_price_required = ValueError (str ''stop-price is required for STOP_LIMIT orders.'')"

section \<open>Example invocations\<close>

text \<open>
  The command line \<^verbatim>\<open>--symbol BTCUSDT --side buy --type mkt --qty 0.001\<close>, a stop-limit
  order, and a limit order whose price is the text \<^verbatim>\<open>nan\<close>.
\<close>

definition args_market :: namespace where
  "args_market =
     \<lparr>arg_api_key = None, arg_api_secret = None,
      arg_symbol = str ''BTCUSDT'', arg_side = str ''buy'', arg_type = str ''mkt'',
      arg_qty = str ''0.001'', arg_price = None, arg_stop_price = None\<rparr>"

definition args_stop_limit :: namespace where
  "args_stop_limit =
     args_market\<lparr>arg_type := str ''STOP_LIMIT'', arg_qty := str ''0.01'',
                  arg_price := Some (str ''50000''), arg_stop_price := Some (str ''49000'')\<rparr>"

definition args_limit_nan :: namespace where
  "args_limit_nan = args_market\<lparr>arg_type := str ''LIMIT'', arg_price := Some (str ''nan'')\<rparr>"

text \<open>An environment that holds both credentials, and a client that rejects every order.\<close>

definition env_example :: "string \<Rightarrow> pystr option" where
  "env_example name =
     (if name = ''BINANCE_API_KEY'' then Some (str ''env-key'')
      else if name = ''BINANCE_API_SECRET'' then Some (str ''env-secret'')
      else None)"

definition client_rejecting :: "payload client" where
  "client_rejecting request =
     Inl (Raised BinanceAPIException (str ''APIError(code=-2019): Margin is insufficient.''))"

text \<open>Three order intents, one of each type.\<close>

definition intent_market :: OrderParams where
  "intent_market =
     \<lparr>symbol = str ''BTCUSDT'', side = str ''BUY'', order_type = str ''MARKET'',
      quantity = binary64 False 1 1000, price = None, stop_price = None\<rparr>"

definition intent_limit :: OrderParams where
  "intent_limit =
     \<lparr>symbol = str ''BTCUSDT'', side = str ''SELL'', order_type = str ''LIMIT'',
      quantity = binary64 False 1 100, price = Some (Finite 50000), stop_price = None\<rparr>"

definition intent_stop_limit :: OrderParams where
  "intent_stop_limit =
     \<lparr>symbol = str ''BTCUSDT'', side = str ''BUY'', order_type = str ''STOP_LIMIT'',
      quantity = binary64 False 1 100, price = Some (Finite 50000),
      stop_price = Some (Finite 49000)\<rparr>"

text \<open>
  \<^verbatim>\<open>str.lower()\<close> of one code point, for the letters A-Z and the Kelvin sign U+212A, an
  uppercase letter whose lowercase is the letter k. The program never calls it: it is
  here to say, for one input of C5, that two strings differ in letter case only.
\<close>

definition lower_ascii_kelvin :: "nat \<Rightarrow> nat" where
  "lower_ascii_kelvin c =
     (if 65 \<le> c \<and> c \<le> 90 then c + 32 else if c = 8490 then 107 else c)"

section \<open>Properties\<close>

subsection \<open>Strings and letter case\<close>

lemmas string_eval = str_def py_strip_def py_upper_def upper_cp_def is_space_def

lemma upper_cp_ascii_upper: "upper_cp U (ascii_upper c) = upper_cp U c"
  by (auto simp add: upper_cp_def ascii_upper_def)

lemma py_upper_ascii_upper: "py_upper U (map ascii_upper s) = py_upper U s"
  by (simp add: py_upper_def comp_def upper_cp_ascii_upper)

lemma is_space_ascii_upper: "is_space (ascii_upper c) = is_space c"
  by (auto simp add: is_space_def ascii_upper_def)

lemma py_strip_ascii_upper: "py_strip (map ascii_upper s) = map ascii_upper (py_strip s)"
  by (simp add: py_strip_def dropWhile_map rev_map comp_def is_space_ascii_upper)

lemma str_eq_iff: "str a = str b \<longleftrightarrow> a = b"
proof -
  have "inj (of_char :: char \<Rightarrow> nat)"
    by (rule injI) simp
  then show ?thesis
    by (simp add: str_def inj_map_eq_map)
qed

lemma py_strip_Nil: "py_strip [] = []"
  by (simp add: py_strip_def)

lemma set_py_strip: "set (py_strip s) \<subseteq> set s"
proof -
  have "set (py_strip s) \<subseteq> set (dropWhile is_space s)"
    unfolding py_strip_def using set_dropWhileD by fastforce
  also have "\<dots> \<subseteq> set s"
    using set_dropWhileD by fastforce
  finally show ?thesis .
qed

lemma length_py_upper_ascii: "\<forall>c\<in>set s. c < 128 \<Longrightarrow> length (py_upper U s) = length s"
  by (induction s) (simp_all add: py_upper_def upper_cp_def)

subsection \<open>Symbols\<close>

lemma validate_symbol_eq:
  "validate_symbol U s =
     (if py_strip s = [] then Inl (ValueError (str ''Symbol must not be empty.''))
      else if length (py_upper U (py_strip s)) < 6
        then Inl (ValueError (str ''Symbol looks invalid (too short). Example: BTCUSDT.''))
      else Inr (py_upper U (py_strip s)))"
  by (auto simp add: validate_symbol_def Let_def py_strip_Nil)

text \<open>
  C4, as stated, fails: the length check is made after the conversion to uppercase, and
  uppercasing can lengthen a string. The symbol of three sharp s (U+00DF) has a trimmed
  form of 3 characters, and validation accepts it and returns \<^verbatim>\<open>SSSSSS\<close>.
\<close>

theorem validate_symbol_short_counterexample:
  "length (py_strip [223, 223, 223]) < 6 \<and>
   validate_symbol ucd_latin1 [223, 223, 223] = Inr (str ''SSSSSS'')"
  by (simp add: validate_symbol_def string_eval)

text \<open>
  C4, amended. Validation fails when the symbol is empty or whitespace only; otherwise
  it trims the symbol, converts it to uppercase, fails when the uppercase trimmed string
  has fewer than 6 characters and else returns it. So every symbol whose trimmed,
  uppercase form has fewer than 6 characters fails, and every ASCII symbol whose trimmed
  form has fewer than 6 characters fails.
\<close>

theorem validate_symbol_trim_upper_length:
  "validate_symbol U s =
     (if py_strip s = [] then Inl (ValueError (str ''Symbol must not be empty.''))
      else if length (py_upper U (py_strip s)) < 6
        then Inl (ValueError (str ''Symbol looks invalid (too short). Example: BTCUSDT.''))
      else Inr (py_upper U (py_strip s))) \<and>
   (length (py_upper U (py_strip s)) < 6 \<longrightarrow> (\<exists>e. validate_symbol U s = Inl e)) \<and>
   ((\<forall>c\<in>set s. c < 128) \<and> length (py_strip s) < 6 \<longrightarrow> (\<exists>e. validate_symbol U s = Inl e))"
proof (intro conjI impI)
  show "validate_symbol U s =
     (if py_strip s = [] then Inl (ValueError (str ''Symbol must not be empty.''))
      else if length (py_upper U (py_strip s)) < 6
        then Inl (ValueError (str ''Symbol looks invalid (too short). Example: BTCUSDT.''))
      else Inr (py_upper U (py_strip s)))"
    by (rule validate_symbol_eq)
next
  assume "length (py_upper U (py_strip s)) < 6"
  then show "\<exists>e. validate_symbol U s = Inl e"
    by (simp add: validate_symbol_eq)
next
  assume a: "(\<forall>c\<in>set s. c < 128) \<and> length (py_strip s) < 6"
  then have "\<forall>c\<in>set (py_strip s). c < 128"
    using set_py_strip [of s] by blast
  then have "length (py_upper U (py_strip s)) = length (py_strip s)"
    by (rule length_py_upper_ascii)
  with a show "\<exists>e. validate_symbol U s = Inl e"
    by (simp add: validate_symbol_eq)
qed

theorem validate_symbol_trim_upper_length_witness:
  "validate_symbol ucd_latin1 (str '' btcusdt '') = Inr (str ''BTCUSDT'') \<and>
   list_all (\<lambda>c. c < 128) (str '' btc '') \<and> length (py_strip (str '' btc '')) < 6 \<and>
   (\<exists>e. validate_symbol ucd_latin1 (str '' btc '') = Inl e)"
proof -
  have h: "(\<forall>c\<in>set (str '' btc ''). c < 128) \<and> length (py_strip (str '' btc '')) < 6"
    by (simp add: string_eval)
  have "validate_symbol ucd_latin1 (str '' btcusdt '') = Inr (str ''BTCUSDT'')"
    using validate_symbol_trim_upper_length [of ucd_latin1 "str '' btcusdt ''"]
    by (simp add: string_eval)
  moreover have "\<exists>e. validate_symbol ucd_latin1 (str '' btc '') = Inl e"
    using h validate_symbol_trim_upper_length [of ucd_latin1 "str '' btc ''"] by blast
  ultimately show ?thesis using h by (simp add: list_all_iff)
qed

subsection \<open>Order types\<close>

lemma validate_order_type_ascii_upper:
  "validate_order_type U (map ascii_upper s) = validate_order_type U s"
  by (simp add: validate_order_type_def py_strip_ascii_upper py_upper_ascii_upper)

lemma validate_order_type_names:
  "validate_order_type U (str ''MKT'') = Inr (str ''MARKET'')"
  "validate_order_type U (str ''MARKET'') = Inr (str ''MARKET'')"
  "validate_order_type U (str ''LIMIT'') = Inr (str ''LIMIT'')"
  "validate_order_type U (str ''STOP-LIMIT'') = Inr (str ''STOP_LIMIT'')"
  "validate_order_type U (str ''STOPLIMIT'') = Inr (str ''STOP_LIMIT'')"
  "validate_order_type U (str ''STOP_LIMIT'') = Inr (str ''STOP_LIMIT'')"
  by (simp_all add: validate_order_type_def string_eval aliases_get_def aliases_def)

lemma validate_order_type_canonical:
  "validate_order_type U s = Inr t \<Longrightarrow> t \<in> {str ''MARKET'', str ''LIMIT'', str ''STOP_LIMIT''}"
  by (auto simp add: validate_order_type_def Let_def split: if_splits)

lemma validate_order_type_any_case:
  assumes "map ascii_upper s = str n" and "validate_order_type U (str n) = r"
  shows "validate_order_type U s = r"
  using assms validate_order_type_ascii_upper [of U s] by simp

text \<open>
  C5, as stated, fails: validation is not unaffected by the letter case of every input.
  The input \<^verbatim>\<open>M\<close>, Kelvin sign, \<^verbatim>\<open>T\<close> differs from \<^verbatim>\<open>mkt\<close> in letter case only (its
  \<^verbatim>\<open>lower()\<close> is \<^verbatim>\<open>mkt\<close>). The Kelvin sign is an uppercase letter, so \<^verbatim>\<open>upper()\<close> leaves
  it as it is, as the table \<open>ucd_latin1\<close> does; the uppercase input is not in the alias
  table and validation rejects it, while it resolves \<^verbatim>\<open>mkt\<close> to \<^verbatim>\<open>MARKET\<close>.
\<close>

theorem validate_order_type_kelvin_counterexample:
  "map lower_ascii_kelvin [77, 8490, 84] = str ''mkt'' \<and>
   py_upper ucd_latin1 (py_strip [77, 8490, 84]) = [77, 8490, 84] \<and>
   validate_order_type ucd_latin1 [77, 8490, 84] =
     Inl (ValueError (str ''Order type must be MARKET, LIMIT, or STOP_LIMIT.'')) \<and>
   validate_order_type ucd_latin1 (str ''mkt'') = Inr (str ''MARKET'')"
  by (simp add: lower_ascii_kelvin_def validate_order_type_def string_eval aliases_get_def
      aliases_def ucd_latin1_def)

text \<open>
  C5, amended. Order-type resolution is idempotent, and insensitive to the case of the
  letters a-z: two inputs that agree once their letters a-z are made capitals validate
  to the same result; every such casing of \<^verbatim>\<open>MKT\<close> and \<^verbatim>\<open>MARKET\<close> resolves to \<^verbatim>\<open>MARKET\<close>,
  of \<^verbatim>\<open>LIMIT\<close> to \<^verbatim>\<open>LIMIT\<close>, and of \<^verbatim>\<open>STOP-LIMIT\<close>, \<^verbatim>\<open>STOPLIMIT\<close> and \<^verbatim>\<open>STOP_LIMIT\<close> to
  \<^verbatim>\<open>STOP_LIMIT\<close>; validating a canonical type returns it, so validating a validated
  result changes nothing.
\<close>

theorem validate_order_type_case_idempotent:
  "(map ascii_upper s = map ascii_upper s' \<longrightarrow> validate_order_type U s = validate_order_type U s') \<and>
   (map ascii_upper s \<in> {str ''MKT'', str ''MARKET''} \<longrightarrow>
      validate_order_type U s = Inr (str ''MARKET'')) \<and>
   (map ascii_upper s = str ''LIMIT'' \<longrightarrow> validate_order_type U s = Inr (str ''LIMIT'')) \<and>
   (map ascii_upper s \<in> {str ''STOP-LIMIT'', str ''STOPLIMIT'', str ''STOP_LIMIT''} \<longrightarrow>
      validate_order_type U s = Inr (str ''STOP_LIMIT'')) \<and>
   (t \<in> {str ''MARKET'', str ''LIMIT'', str ''STOP_LIMIT''} \<longrightarrow> validate_order_type U t = Inr t) \<and>
   (validate_order_type U s = Inr t' \<longrightarrow> validate_order_type U t' = Inr t')"
proof (intro conjI impI)
  assume "map ascii_upper s = map ascii_upper s'"
  then show "validate_order_type U s = validate_order_type U s'"
    using validate_order_type_ascii_upper [of U s] validate_order_type_ascii_upper [of U s']
    by simp
next
  assume "map ascii_upper s \<in> {str ''MKT'', str ''MARKET''}"
  then show "validate_order_type U s = Inr (str ''MARKET'')"
    by (auto intro: validate_order_type_any_case validate_order_type_names)
next
  assume "map ascii_upper s = str ''LIMIT''"
  then show "validate_order_type U s = Inr (str ''LIMIT'')"
    by (auto intro: validate_order_type_any_case validate_order_type_names)
next
  assume "map ascii_upper s \<in> {str ''STOP-LIMIT'', str ''STOPLIMIT'', str ''STOP_LIMIT''}"
  then show "validate_order_type U s = Inr (str ''STOP_LIMIT'')"
    by (auto intro: validate_order_type_any_case validate_order_type_names)
next
  assume "t \<in> {str ''MARKET'', str ''LIMIT'', str ''STOP_LIMIT''}"
  then show "validate_order_type U t = Inr t"
    by (auto simp add: validate_order_type_names)
next
  assume "validate_order_type U s = Inr t'"
  then have "t' \<in> {str ''MARKET'', str ''LIMIT'', str ''STOP_LIMIT''}"
    by (rule validate_order_type_canonical)
  then show "validate_order_type U t' = Inr t'"
    by (auto simp add: validate_order_type_names)
qed

theorem validate_order_type_case_idempotent_witness:
  "map ascii_upper (str ''Stop-Limit'') = map ascii_upper (str ''sTOP-lIMIT'') \<and>
   validate_order_type ucd_latin1 (str ''Stop-Limit'') =
     validate_order_type ucd_latin1 (str ''sTOP-lIMIT'') \<and>
   map ascii_upper (str ''mKt'') \<in> {str ''MKT'', str ''MARKET''} \<and>
   validate_order_type ucd_latin1 (str ''mKt'') = Inr (str ''MARKET'') \<and>
   map ascii_upper (str ''Stop-Limit'') \<in> {str ''STOP-LIMIT'', str ''STOPLIMIT'', str ''STOP_LIMIT''} \<and>
   validate_order_type ucd_latin1 (str ''Stop-Limit'') = Inr (str ''STOP_LIMIT'') \<and>
   validate_order_type ucd_latin1 (str ''STOP_LIMIT'') = Inr (str ''STOP_LIMIT'')"
proof -
  have h1: "map ascii_upper (str ''Stop-Limit'') = map ascii_upper (str ''sTOP-lIMIT'')"
    by (simp add: str_def ascii_upper_def)
  have h2: "map ascii_upper (str ''mKt'') \<in> {str ''MKT'', str ''MARKET''}"
    by (simp add: str_def ascii_upper_def)
  have h3: "map ascii_upper (str ''Stop-Limit'') \<in> {str ''STOP-LIMIT'', str ''STOPLIMIT'', str ''STOP_LIMIT''}"
    by (simp add: str_def ascii_upper_def)
  note a = validate_order_type_case_idempotent
    [of "str ''Stop-Limit''" "str ''sTOP-lIMIT''" ucd_latin1 "str ''STOP_LIMIT''" "str ''STOP_LIMIT''"]
  note b = validate_order_type_case_idempotent
    [of "str ''mKt''" "str ''mKt''" ucd_latin1 "str ''MARKET''" "str ''MARKET''"]
  from a h1 have c1: "validate_order_type ucd_latin1 (str ''Stop-Limit'') =
      validate_order_type ucd_latin1 (str ''sTOP-lIMIT'')"
    by blast
  from b h2 have c2: "validate_order_type ucd_latin1 (str ''mKt'') = Inr (str ''MARKET'')"
    by blast
  from a h3 have c3: "validate_order_type ucd_latin1 (str ''Stop-Limit'') = Inr (str ''STOP_LIMIT'')"
    by blast
  from a c3 have c4: "validate_order_type ucd_latin1 (str ''STOP_LIMIT'') = Inr (str ''STOP_LIMIT'')"
    by blast
  from h1 h2 h3 c1 c2 c3 c4 show ?thesis by blast
qed

subsection \<open>Evaluation of the examples\<close>

lemmas float_eval = py_float_def to_ascii_def drop_underscores_def strip_ascii_def
  is_ascii_space_def parse_decimal_def parse_exponent_def parse_inf_or_nan_def is_digit_def
  digits_val_def ascii_upper_def str_def Let_def

lemmas binary64_eval = binary64_def ilog2_def bit_length.simps round_half_even_def pow2_def Let_def

lemma py_float_examples:
  "py_float U (str ''0.001'') = Some (binary64 False 1 1000)"
  "py_float U (str ''0.01'') = Some (binary64 False 1 100)"
  "py_float U (str ''50000'') = Some (binary64 False 50000 1)"
  "py_float U (str ''49000'') = Some (binary64 False 49000 1)"
  "py_float U (str ''-1'') = Some (binary64 True 1 1)"
  "py_float U (str ''abc'') = None"
  "py_float U (str ''nan'') = Some NaN"
  by (simp_all add: float_eval)

lemma binary64_examples:
  "binary64 False 1 1000 = Finite (1152921504606847 / 1152921504606846976)"
  "binary64 False 1 100 = Finite (5764607523034235 / 576460752303423488)"
  "binary64 False 50000 1 = Finite 50000"
  "binary64 False 49000 1 = Finite 49000"
  "binary64 True 1 1 = Finite (- 1)"
  by (simp_all add: binary64_eval)

lemma validate_positive_float_examples:
  "validate_positive_float U (str ''0.001'') n = Inr (binary64 False 1 1000)"
  "validate_positive_float U (str ''0.01'') n = Inr (binary64 False 1 100)"
  "validate_positive_float U (str ''50000'') n = Inr (Finite 50000)"
  "validate_positive_float U (str ''49000'') n = Inr (Finite 49000)"
  "validate_positive_float U (str ''-1'') n = Inl (ValueError (n @ str '' must be greater than 0.''))"
  "validate_positive_float U (str ''abc'') n = Inl (ValueError (n @ str '' must be a number.''))"
  "validate_positive_float U (str ''nan'') n = Inr NaN"
  by (simp_all add: validate_positive_float_def py_float_examples binary64_examples
      del: One_nat_def)

lemma validate_symbol_examples:
  "validate_symbol U (str ''BTCUSDT'') = Inr (str ''BTCUSDT'')"
  "validate_symbol U (str ''btc'') =
     Inl (ValueError (str ''Symbol looks invalid (too short). Example: BTCUSDT.''))"
  by (simp_all add: validate_symbol_def string_eval)

lemma validate_side_examples:
  "validate_side U (str ''buy'') = Inr (str ''BUY'')"
  "validate_side U (str ''hold'') = Inl (ValueError (str ''Side must be BUY or SELL.''))"
  by (simp_all add: validate_side_def string_eval)

lemma validate_order_type_examples:
  "validate_order_type U (str ''mkt'') = Inr (str ''MARKET'')"
  "validate_order_type U (str ''foo'') =
     Inl (ValueError (str ''Order type must be MARKET, LIMIT, or STOP_LIMIT.''))"
  by (simp_all add: validate_order_type_def string_eval aliases_get_def aliases_def)

lemmas validate_examples = validate_symbol_examples validate_side_examples
  validate_order_type_examples validate_order_type_names validate_positive_float_examples
  str_eq_iff

lemma validate_args_market:
  "validate_order_params U args_market =
     Inr \<lparr>symbol = str ''BTCUSDT'', side = str ''BUY'', order_type = str ''MARKET'',
          quantity = binary64 False 1 1000, price = None, stop_price = None\<rparr>"
  by (simp add: args_market_def validate_order_params_def validate_examples)

lemma validate_args_stop_limit:
  "validate_order_params U args_stop_limit =
     Inr \<lparr>symbol = str ''BTCUSDT'', side = str ''BUY'', order_type = str ''STOP_LIMIT'',
          quantity = binary64 False 1 100, price = Some (Finite 50000),
          stop_price = Some (Finite 49000)\<rparr>"
  by (simp add: args_stop_limit_def args_market_def validate_order_params_def validate_examples)

lemma validate_args_limit_nan:
  "validate_order_params U args_limit_nan =
     Inr \<lparr>symbol = str ''BTCUSDT'', side = str ''BUY'', order_type = str ''LIMIT'',
          quantity = binary64 False 1 1000, price = Some NaN, stop_price = None\<rparr>"
  by (simp add: args_limit_nan_def args_market_def validate_order_params_def validate_examples)

subsection \<open>Positive floats\<close>

lemma float_le_zero_iff: "\<not> float_le_zero f \<longleftrightarrow> float_gt_zero f \<or> f = NaN"
  by (cases f) auto

lemma validate_positive_float_Inr:
  "validate_positive_float U v n = Inr f \<longleftrightarrow> py_float U v = Some f \<and> \<not> float_le_zero f"
  by (auto simp add: validate_positive_float_def split: option.splits)

lemma validate_positive_float_Inl:
  "validate_positive_float U v n = Inl e \<Longrightarrow>
     e = ValueError (n @ str '' must be a number.'') \<or>
     e = ValueError (n @ str '' must be greater than 0.'')"
  by (auto simp add: validate_positive_float_def split: option.splits if_splits)

lemma validate_positive_float_unless_nan:
  assumes "py_float U v \<noteq> Some NaN"
  shows "validate_positive_float U v n =
     (case py_float U v of
        None \<Rightarrow> Inl (ValueError (n @ str '' must be a number.''))
      | Some f \<Rightarrow> if float_gt_zero f then Inr f
                  else Inl (ValueError (n @ str '' must be greater than 0.'')))"
proof (cases "py_float U v")
  case None
  then show ?thesis by (simp add: validate_positive_float_def)
next
  case (Some f)
  with assms have "f \<noteq> NaN" by simp
  then have "float_le_zero f = (\<not> float_gt_zero f)" by (cases f) auto
  with Some show ?thesis by (simp add: validate_positive_float_def)
qed

text \<open>
  C2 holds for every string but those that \<^verbatim>\<open>float\<close> reads as a NaN (lemma
  \<open>validate_positive_float_unless_nan\<close>). For the text \<^verbatim>\<open>nan\<close> it does not: the string
  parses as a float that is not greater than zero, and \<^verbatim>\<open>validate_positive_float\<close>
  returns it, because the test \<^verbatim>\<open>f <= 0\<close> is false for a NaN.
\<close>

theorem validate_positive_float_accepts_nan:
  "py_float U (str ''nan'') = Some NaN \<and> \<not> float_gt_zero NaN \<and>
   validate_positive_float U (str ''nan'') field_name = Inr NaN"
  by (simp add: validate_positive_float_def py_float_examples)

subsection \<open>All order parameters\<close>

lemma validate_order_params_steps:
  assumes "validate_symbol U (arg_symbol a) = Inr sy"
    and "validate_side U (arg_side a) = Inr sd"
    and "validate_order_type U (arg_type a) = Inr ot"
    and "validate_positive_float U (arg_qty a) (str ''Quantity'') = Inr qty"
  shows "validate_order_params U a =
     (case (if ot \<in> {str ''LIMIT'', str ''STOP_LIMIT''} then
              (case arg_price a of
                 None \<Rightarrow> Inl price_required
               | Some v \<Rightarrow>
                   (case validate_positive_float U v (str ''Price'') of
                      Inl e \<Rightarrow> Inl e
                    | Inr f \<Rightarrow> Inr (Some f)))
            else Inr None) of Inl e \<Rightarrow> Inl e | Inr pr \<Rightarrow>
      case (if ot = str ''STOP_LIMIT'' then
              (case arg_stop_price a of
                 None \<Rightarrow> Inl stop_price_required
               | Some v \<Rightarrow>
                   (case validate_positive_float U v (str ''Stop price'') of
                      Inl e \<Rightarrow> Inl e
                    | Inr f \<Rightarrow> Inr (Some f)))
            else Inr None) of Inl e \<Rightarrow> Inl e | Inr sp \<Rightarrow>
      Inr \<lparr>symbol = sy, side = sd, order_type = ot, quantity = qty,
           price = pr, stop_price = sp\<rparr>)"
  unfolding validate_order_params_def price_required_def stop_price_required_def
  using assms by simp

lemma validate_order_params_InrE:
  assumes "validate_order_params U a = Inr p"
  obtains sy sd ot qty where "validate_symbol U (arg_symbol a) = Inr sy"
    and "validate_side U (arg_side a) = Inr sd"
    and "validate_order_type U (arg_type a) = Inr ot"
    and "validate_positive_float U (arg_qty a) (str ''Quantity'') = Inr qty"
  using assms
  by (simp add: validate_order_params_def split: sum.splits)

lemma validate_order_params_Inr:
  assumes "validate_order_params U a = Inr p"
  shows "validate_symbol U (arg_symbol a) = Inr (symbol p) \<and>
         validate_side U (arg_side a) = Inr (side p) \<and>
         validate_order_type U (arg_type a) = Inr (order_type p) \<and>
         validate_positive_float U (arg_qty a) (str ''Quantity'') = Inr (quantity p) \<and>
         (order_type p \<in> {str ''LIMIT'', str ''STOP_LIMIT''} \<longrightarrow>
            (\<exists>v f. arg_price a = Some v \<and> validate_positive_float U v (str ''Price'') = Inr f \<and>
                   price p = Some f)) \<and>
         (order_type p \<notin> {str ''LIMIT'', str ''STOP_LIMIT''} \<longrightarrow> price p = None) \<and>
         (order_type p = str ''STOP_LIMIT'' \<longrightarrow>
            (\<exists>v f. arg_stop_price a = Some v \<and>
                   validate_positive_float U v (str ''Stop price'') = Inr f \<and> stop_price p = Some f)) \<and>
         (order_type p \<noteq> str ''STOP_LIMIT'' \<longrightarrow> stop_price p = None)"
proof -
  from assms obtain sy sd ot qty where v: "validate_symbol U (arg_symbol a) = Inr sy"
    "validate_side U (arg_side a) = Inr sd"
    "validate_order_type U (arg_type a) = Inr ot"
    "validate_positive_float U (arg_qty a) (str ''Quantity'') = Inr qty"
    by (rule validate_order_params_InrE)
  have "Inr p = validate_order_params U a"
    by (simp add: assms)
  then show ?thesis
    unfolding validate_order_params_steps [OF v]
    by (auto simp add: v split: if_splits option.splits sum.splits)
qed

lemma validate_positive_float_not_required:
  assumes "validate_positive_float U v n = Inl e" and "n = str ''Price'' \<or> n = str ''Stop price''"
  shows "e \<noteq> price_required \<and> e \<noteq> stop_price_required"
  using validate_positive_float_Inl [OF assms(1)] assms(2)
  by (auto simp add: price_required_def stop_price_required_def str_def)

lemma validate_order_params_market:
  assumes "validate_order_type U (arg_type a) = Inr (str ''MARKET'')"
  shows "validate_order_params U (a\<lparr>arg_price := x, arg_stop_price := y\<rparr>) = validate_order_params U a"
  using assms
  by (simp add: validate_order_params_def str_eq_iff split: sum.splits)

text \<open>
  C8. The rules are applied in the order symbol, side, order type, quantity, price, stop
  price, and the first rule that fails gives the error, whatever the later fields hold:
  a failure of a rule, with every earlier rule passed, is the result of the validation.
  A result is an error or an order, never both, and an order is returned only when
  every rule has passed.
\<close>

theorem validate_order_params_first_failure:
  "(validate_symbol U (arg_symbol a) = Inl e \<longrightarrow> validate_order_params U a = Inl e) \<and>
   (validate_symbol U (arg_symbol a) = Inr sy \<longrightarrow>
      (validate_side U (arg_side a) = Inl e \<longrightarrow> validate_order_params U a = Inl e) \<and>
      (validate_side U (arg_side a) = Inr sd \<longrightarrow>
         (validate_order_type U (arg_type a) = Inl e \<longrightarrow> validate_order_params U a = Inl e) \<and>
         (validate_order_type U (arg_type a) = Inr ot \<longrightarrow>
            (validate_positive_float U (arg_qty a) (str ''Quantity'') = Inl e \<longrightarrow>
               validate_order_params U a = Inl e) \<and>
            (validate_positive_float U (arg_qty a) (str ''Quantity'') = Inr qty \<longrightarrow>
               (ot \<in> {str ''LIMIT'', str ''STOP_LIMIT''} \<and> arg_price a = None \<longrightarrow>
                  validate_order_params U a = Inl price_required) \<and>
               (ot \<in> {str ''LIMIT'', str ''STOP_LIMIT''} \<and> arg_price a = Some v \<and>
                  validate_positive_float U v (str ''Price'') = Inl e \<longrightarrow>
                  validate_order_params U a = Inl e) \<and>
               (ot = str ''STOP_LIMIT'' \<and> arg_price a = Some v \<and>
                  validate_positive_float U v (str ''Price'') = Inr f \<longrightarrow>
                  (arg_stop_price a = None \<longrightarrow>
                     validate_order_params U a = Inl stop_price_required) \<and>
                  (arg_stop_price a = Some w \<and>
                   validate_positive_float U w (str ''Stop price'') = Inl e \<longrightarrow>
                     validate_order_params U a = Inl e)))))) \<and>
   (validate_order_params U a = Inr p \<longrightarrow>
      validate_symbol U (arg_symbol a) = Inr (symbol p) \<and>
      validate_side U (arg_side a) = Inr (side p) \<and>
      validate_order_type U (arg_type a) = Inr (order_type p) \<and>
      validate_positive_float U (arg_qty a) (str ''Quantity'') = Inr (quantity p)) \<and>
   (\<forall>e'. validate_order_params U a = Inl e' \<longrightarrow> (\<forall>p'. validate_order_params U a \<noteq> Inr p'))"
proof (intro conjI)
  show "validate_symbol U (arg_symbol a) = Inl e \<longrightarrow> validate_order_params U a = Inl e"
    by (simp add: validate_order_params_def)
  show "validate_symbol U (arg_symbol a) = Inr sy \<longrightarrow>
      (validate_side U (arg_side a) = Inl e \<longrightarrow> validate_order_params U a = Inl e) \<and>
      (validate_side U (arg_side a) = Inr sd \<longrightarrow>
         (validate_order_type U (arg_type a) = Inl e \<longrightarrow> validate_order_params U a = Inl e) \<and>
         (validate_order_type U (arg_type a) = Inr ot \<longrightarrow>
            (validate_positive_float U (arg_qty a) (str ''Quantity'') = Inl e \<longrightarrow>
               validate_order_params U a = Inl e) \<and>
            (validate_positive_float U (arg_qty a) (str ''Quantity'') = Inr qty \<longrightarrow>
               (ot \<in> {str ''LIMIT'', str ''STOP_LIMIT''} \<and> arg_price a = None \<longrightarrow>
                  validate_order_params U a = Inl price_required) \<and>
               (ot \<in> {str ''LIMIT'', str ''STOP_LIMIT''} \<and> arg_price a = Some v \<and>
                  validate_positive_float U v (str ''Price'') = Inl e \<longrightarrow>
                  validate_order_params U a = Inl e) \<and>
               (ot = str ''STOP_LIMIT'' \<and> arg_price a = Some v \<and>
                  validate_positive_float U v (str ''Price'') = Inr f \<longrightarrow>
                  (arg_stop_price a = None \<longrightarrow>
                     validate_order_params U a = Inl stop_price_required) \<and>
                  (arg_stop_price a = Some w \<and>
                   validate_positive_float U w (str ''Stop price'') = Inl e \<longrightarrow>
                     validate_order_params U a = Inl e)))))"
    unfolding validate_order_params_def price_required_def stop_price_required_def
    by (simp add: str_eq_iff)
  show "validate_order_params U a = Inr p \<longrightarrow>
      validate_symbol U (arg_symbol a) = Inr (symbol p) \<and>
      validate_side U (arg_side a) = Inr (side p) \<and>
      validate_order_type U (arg_type a) = Inr (order_type p) \<and>
      validate_positive_float U (arg_qty a) (str ''Quantity'') = Inr (quantity p)"
    using validate_order_params_Inr [of U a p] by blast
  show "\<forall>e'. validate_order_params U a = Inl e' \<longrightarrow> (\<forall>p'. validate_order_params U a \<noteq> Inr p')"
    by simp
qed

theorem validate_order_params_first_failure_witness:
  "validate_order_params ucd_latin1
     (args_market\<lparr>arg_symbol := str ''btc'', arg_side := str ''hold'', arg_type := str ''foo'',
                   arg_qty := str ''-1''\<rparr>) =
     Inl (ValueError (str ''Symbol looks invalid (too short). Example: BTCUSDT.'')) \<and>
   validate_order_params ucd_latin1
     (args_market\<lparr>arg_side := str ''hold'', arg_type := str ''foo'', arg_qty := str ''-1''\<rparr>) =
     Inl (ValueError (str ''Side must be BUY or SELL.'')) \<and>
   validate_order_params ucd_latin1
     (args_market\<lparr>arg_type := str ''foo'', arg_qty := str ''-1''\<rparr>) =
     Inl (ValueError (str ''Order type must be MARKET, LIMIT, or STOP_LIMIT.'')) \<and>
   validate_order_params ucd_latin1
     (args_market\<lparr>arg_type := str ''LIMIT'', arg_qty := str ''-1''\<rparr>) =
     Inl (ValueError (str ''Quantity'' @ str '' must be greater than 0.'')) \<and>
   validate_order_params ucd_latin1
     (args_market\<lparr>arg_type := str ''STOP_LIMIT'', arg_price := Some (str ''abc'')\<rparr>) =
     Inl (ValueError (str ''Price'' @ str '' must be a number.''))"
proof -
  note ev = args_market_def validate_examples
  have c1: "validate_order_params ucd_latin1
     (args_market\<lparr>arg_symbol := str ''btc'', arg_side := str ''hold'', arg_type := str ''foo'',
                   arg_qty := str ''-1''\<rparr>) =
     Inl (ValueError (str ''Symbol looks invalid (too short). Example: BTCUSDT.''))"
    using validate_order_params_first_failure [where U = ucd_latin1
        and a = "args_market\<lparr>arg_symbol := str ''btc'', arg_side := str ''hold'',
                   arg_type := str ''foo'', arg_qty := str ''-1''\<rparr>"
        and e = "ValueError (str ''Symbol looks invalid (too short). Example: BTCUSDT.'')"]
    by (simp add: ev)
  have c2: "validate_order_params ucd_latin1
     (args_market\<lparr>arg_side := str ''hold'', arg_type := str ''foo'', arg_qty := str ''-1''\<rparr>) =
     Inl (ValueError (str ''Side must be BUY or SELL.''))"
    using validate_order_params_first_failure [where U = ucd_latin1
        and a = "args_market\<lparr>arg_side := str ''hold'', arg_type := str ''foo'',
                   arg_qty := str ''-1''\<rparr>"
        and sy = "str ''BTCUSDT''" and e = "ValueError (str ''Side must be BUY or SELL.'')"]
    by (simp add: ev)
  have c3: "validate_order_params ucd_latin1
     (args_market\<lparr>arg_type := str ''foo'', arg_qty := str ''-1''\<rparr>) =
     Inl (ValueError (str ''Order type must be MARKET, LIMIT, or STOP_LIMIT.''))"
    using validate_order_params_first_failure [where U = ucd_latin1
        and a = "args_market\<lparr>arg_type := str ''foo'', arg_qty := str ''-1''\<rparr>"
        and sy = "str ''BTCUSDT''" and sd = "str ''BUY''"
        and e = "ValueError (str ''Order type must be MARKET, LIMIT, or STOP_LIMIT.'')"]
    by (simp add: ev)
  have c4: "validate_order_params ucd_latin1
     (args_market\<lparr>arg_type := str ''LIMIT'', arg_qty := str ''-1''\<rparr>) =
     Inl (ValueError (str ''Quantity'' @ str '' must be greater than 0.''))"
    using validate_order_params_first_failure [where U = ucd_latin1
        and a = "args_market\<lparr>arg_type := str ''LIMIT'', arg_qty := str ''-1''\<rparr>"
        and sy = "str ''BTCUSDT''" and sd = "str ''BUY''" and ot = "str ''LIMIT''"
        and e = "ValueError (str ''Quantity'' @ str '' must be greater than 0.'')"]
    by (simp add: ev)
  have c5: "validate_order_params ucd_latin1
     (args_market\<lparr>arg_type := str ''STOP_LIMIT'', arg_price := Some (str ''abc'')\<rparr>) =
     Inl (ValueError (str ''Price'' @ str '' must be a number.''))"
    using validate_order_params_first_failure [where U = ucd_latin1
        and a = "args_market\<lparr>arg_type := str ''STOP_LIMIT'', arg_price := Some (str ''abc'')\<rparr>"
        and sy = "str ''BTCUSDT''" and sd = "str ''BUY''" and ot = "str ''STOP_LIMIT''"
        and qty = "binary64 False 1 1000" and v = "str ''abc''"
        and e = "ValueError (str ''Price'' @ str '' must be a number.'')"]
    by (simp add: ev)
  from c1 c2 c3 c4 c5 show ?thesis by blast
qed

text \<open>
  C3. When the order type resolves to \<^verbatim>\<open>LIMIT\<close> or \<^verbatim>\<open>STOP_LIMIT\<close> and no price is given,
  validation fails; when it resolves to \<^verbatim>\<open>STOP_LIMIT\<close> and no stop price is given,
  validation fails; when it resolves to \<^verbatim>\<open>MARKET\<close>, the price and the stop price are
  never read, and the order is returned without them. With the earlier fields valid, the
  error for a missing price (stop price) is \<open>price_required\<close> (\<open>stop_price_required\<close>),
  and the error for a price (stop price) that is given and invalid is a different one.
\<close>

theorem required_price_and_stop_price:
  "(validate_order_type U (arg_type a) = Inr ot \<and> ot \<in> {str ''LIMIT'', str ''STOP_LIMIT''} \<and>
      arg_price a = None \<longrightarrow> (\<exists>e. validate_order_params U a = Inl e)) \<and>
   (validate_order_type U (arg_type a) = Inr (str ''STOP_LIMIT'') \<and> arg_stop_price a = None \<longrightarrow>
      (\<exists>e. validate_order_params U a = Inl e)) \<and>
   (validate_order_type U (arg_type a) = Inr (str ''MARKET'') \<longrightarrow>
      validate_order_params U (a\<lparr>arg_price := x, arg_stop_price := y\<rparr>) =
        validate_order_params U a) \<and>
   (validate_symbol U (arg_symbol a) = Inr sy \<and> validate_side U (arg_side a) = Inr sd \<and>
      validate_order_type U (arg_type a) = Inr ot \<and>
      validate_positive_float U (arg_qty a) (str ''Quantity'') = Inr qty \<longrightarrow>
      (ot = str ''MARKET'' \<longrightarrow>
         validate_order_params U a =
           Inr \<lparr>symbol = sy, side = sd, order_type = ot, quantity = qty,
                price = None, stop_price = None\<rparr>) \<and>
      (ot \<in> {str ''LIMIT'', str ''STOP_LIMIT''} \<and> arg_price a = None \<longrightarrow>
         validate_order_params U a = Inl price_required) \<and>
      (ot \<in> {str ''LIMIT'', str ''STOP_LIMIT''} \<and> arg_price a = Some v \<and>
         validate_positive_float U v (str ''Price'') = Inl e \<longrightarrow>
         validate_order_params U a = Inl e \<and> e \<noteq> price_required) \<and>
      (ot = str ''STOP_LIMIT'' \<and> arg_price a = Some v \<and>
         validate_positive_float U v (str ''Price'') = Inr f \<and> arg_stop_price a = None \<longrightarrow>
         validate_order_params U a = Inl stop_price_required) \<and>
      (ot = str ''STOP_LIMIT'' \<and> arg_price a = Some v \<and>
         validate_positive_float U v (str ''Price'') = Inr f \<and> arg_stop_price a = Some w \<and>
         validate_positive_float U w (str ''Stop price'') = Inl e \<longrightarrow>
         validate_order_params U a = Inl e \<and> e \<noteq> stop_price_required))"
proof (intro conjI)
  show "validate_order_type U (arg_type a) = Inr ot \<and> ot \<in> {str ''LIMIT'', str ''STOP_LIMIT''} \<and>
      arg_price a = None \<longrightarrow> (\<exists>e. validate_order_params U a = Inl e)"
    by (auto simp add: validate_order_params_def split: sum.splits)
  show "validate_order_type U (arg_type a) = Inr (str ''STOP_LIMIT'') \<and> arg_stop_price a = None \<longrightarrow>
      (\<exists>e. validate_order_params U a = Inl e)"
    by (auto simp add: validate_order_params_def split: sum.splits option.splits)
  show "validate_order_type U (arg_type a) = Inr (str ''MARKET'') \<longrightarrow>
      validate_order_params U (a\<lparr>arg_price := x, arg_stop_price := y\<rparr>) =
        validate_order_params U a"
    by (simp add: validate_order_params_market)
  show "validate_symbol U (arg_symbol a) = Inr sy \<and> validate_side U (arg_side a) = Inr sd \<and>
      validate_order_type U (arg_type a) = Inr ot \<and>
      validate_positive_float U (arg_qty a) (str ''Quantity'') = Inr qty \<longrightarrow>
      (ot = str ''MARKET'' \<longrightarrow>
         validate_order_params U a =
           Inr \<lparr>symbol = sy, side = sd, order_type = ot, quantity = qty,
                price = None, stop_price = None\<rparr>) \<and>
      (ot \<in> {str ''LIMIT'', str ''STOP_LIMIT''} \<and> arg_price a = None \<longrightarrow>
         validate_order_params U a = Inl price_required) \<and>
      (ot \<in> {str ''LIMIT'', str ''STOP_LIMIT''} \<and> arg_price a = Some v \<and>
         validate_positive_float U v (str ''Price'') = Inl e \<longrightarrow>
         validate_order_params U a = Inl e \<and> e \<noteq> price_required) \<and>
      (ot = str ''STOP_LIMIT'' \<and> arg_price a = Some v \<and>
         validate_positive_float U v (str ''Price'') = Inr f \<and> arg_stop_price a = None \<longrightarrow>
         validate_order_params U a = Inl stop_price_required) \<and>
      (ot = str ''STOP_LIMIT'' \<and> arg_price a = Some v \<and>
         validate_positive_float U v (str ''Price'') = Inr f \<and> arg_stop_price a = Some w \<and>
         validate_positive_float U w (str ''Stop price'') = Inl e \<longrightarrow>
         validate_order_params U a = Inl e \<and> e \<noteq> stop_price_required)"
  proof (intro impI, elim conjE)
    assume v: "validate_symbol U (arg_symbol a) = Inr sy"
      "validate_side U (arg_side a) = Inr sd"
      "validate_order_type U (arg_type a) = Inr ot"
      "validate_positive_float U (arg_qty a) (str ''Quantity'') = Inr qty"
    note s = validate_order_params_steps [OF v]
    show "(ot = str ''MARKET'' \<longrightarrow>
         validate_order_params U a =
           Inr \<lparr>symbol = sy, side = sd, order_type = ot, quantity = qty,
                price = None, stop_price = None\<rparr>) \<and>
      (ot \<in> {str ''LIMIT'', str ''STOP_LIMIT''} \<and> arg_price a = None \<longrightarrow>
         validate_order_params U a = Inl price_required) \<and>
      (ot \<in> {str ''LIMIT'', str ''STOP_LIMIT''} \<and> arg_price a = Some v \<and>
         validate_positive_float U v (str ''Price'') = Inl e \<longrightarrow>
         validate_order_params U a = Inl e \<and> e \<noteq> price_required) \<and>
      (ot = str ''STOP_LIMIT'' \<and> arg_price a = Some v \<and>
         validate_positive_float U v (str ''Price'') = Inr f \<and> arg_stop_price a = None \<longrightarrow>
         validate_order_params U a = Inl stop_price_required) \<and>
      (ot = str ''STOP_LIMIT'' \<and> arg_price a = Some v \<and>
         validate_positive_float U v (str ''Price'') = Inr f \<and> arg_stop_price a = Some w \<and>
         validate_positive_float U w (str ''Stop price'') = Inl e \<longrightarrow>
         validate_order_params U a = Inl e \<and> e \<noteq> stop_price_required)"
      unfolding s
      using validate_positive_float_not_required [of U v "str ''Price''" e]
        validate_positive_float_not_required [of U w "str ''Stop price''" e]
      by (simp add: str_eq_iff)
  qed
qed

theorem required_price_and_stop_price_witness:
  "validate_order_params ucd_latin1 (args_market\<lparr>arg_type := str ''LIMIT''\<rparr>) = Inl price_required \<and>
   validate_order_params ucd_latin1
     (args_market\<lparr>arg_type := str ''LIMIT'', arg_price := Some (str ''abc'')\<rparr>) =
     Inl (ValueError (str ''Price'' @ str '' must be a number.'')) \<and>
   ValueError (str ''Price'' @ str '' must be a number.'') \<noteq> price_required \<and>
   validate_order_params ucd_latin1
     (args_market\<lparr>arg_type := str ''STOP_LIMIT'', arg_price := Some (str ''50000'')\<rparr>) =
     Inl stop_price_required \<and>
   validate_order_params ucd_latin1
     (args_market\<lparr>arg_price := Some (str ''abc''), arg_stop_price := Some (str ''-1'')\<rparr>) =
     validate_order_params ucd_latin1 args_market"
proof -
  note ev = args_market_def validate_examples
  have c1: "validate_order_params ucd_latin1 (args_market\<lparr>arg_type := str ''LIMIT''\<rparr>) =
      Inl price_required"
    using required_price_and_stop_price [where U = ucd_latin1
        and a = "args_market\<lparr>arg_type := str ''LIMIT''\<rparr>"
        and sy = "str ''BTCUSDT''" and sd = "str ''BUY''" and ot = "str ''LIMIT''"
        and qty = "binary64 False 1 1000"]
    by (simp add: ev)
  have c2: "validate_order_params ucd_latin1
      (args_market\<lparr>arg_type := str ''LIMIT'', arg_price := Some (str ''abc'')\<rparr>) =
      Inl (ValueError (str ''Price'' @ str '' must be a number.'')) \<and>
      ValueError (str ''Price'' @ str '' must be a number.'') \<noteq> price_required"
    using required_price_and_stop_price [where U = ucd_latin1
        and a = "args_market\<lparr>arg_type := str ''LIMIT'', arg_price := Some (str ''abc'')\<rparr>"
        and sy = "str ''BTCUSDT''" and sd = "str ''BUY''" and ot = "str ''LIMIT''"
        and qty = "binary64 False 1 1000" and v = "str ''abc''"
        and e = "ValueError (str ''Price'' @ str '' must be a number.'')"]
    by (simp add: ev)
  have c3: "validate_order_params ucd_latin1
      (args_market\<lparr>arg_type := str ''STOP_LIMIT'', arg_price := Some (str ''50000'')\<rparr>) =
      Inl stop_price_required"
    using required_price_and_stop_price [where U = ucd_latin1
        and a = "args_market\<lparr>arg_type := str ''STOP_LIMIT'', arg_price := Some (str ''50000'')\<rparr>"
        and sy = "str ''BTCUSDT''" and sd = "str ''BUY''" and ot = "str ''STOP_LIMIT''"
        and qty = "binary64 False 1 1000" and v = "str ''50000''" and f = "Finite 50000"]
    by (simp add: ev)
  have c4: "validate_order_params ucd_latin1
      (args_market\<lparr>arg_price := Some (str ''abc''), arg_stop_price := Some (str ''-1'')\<rparr>) =
      validate_order_params ucd_latin1 args_market"
    using required_price_and_stop_price [where U = ucd_latin1 and a = args_market
        and x = "Some (str ''abc'')" and y = "Some (str ''-1'')"]
    by (simp add: ev)
  from c1 c2 c3 c4 show ?thesis by blast
qed

lemma validated_optional_fields:
  assumes "validate_order_params U a = Inr p"
  shows "(price p \<noteq> None \<longleftrightarrow> order_type p \<in> {str ''LIMIT'', str ''STOP_LIMIT''}) \<and>
         (stop_price p \<noteq> None \<longleftrightarrow> order_type p = str ''STOP_LIMIT'') \<and>
         (\<forall>f. price p = Some f \<or> stop_price p = Some f \<longrightarrow> float_gt_zero f \<or> f = NaN)"
proof -
  note i = validate_order_params_Inr [OF assms]
  have 1: "price p \<noteq> None \<longleftrightarrow> order_type p \<in> {str ''LIMIT'', str ''STOP_LIMIT''}"
    using i by (cases "order_type p \<in> {str ''LIMIT'', str ''STOP_LIMIT''}") auto
  have 2: "stop_price p \<noteq> None \<longleftrightarrow> order_type p = str ''STOP_LIMIT''"
    using i by (cases "order_type p = str ''STOP_LIMIT''") auto
  have 3: "float_gt_zero f \<or> f = NaN" if "price p = Some f \<or> stop_price p = Some f" for f
  proof -
    from that 1 2 i obtain v n where "validate_positive_float U v n = Inr f"
      by (metis option.distinct(1) option.inject)
    then show ?thesis
      by (simp add: validate_positive_float_Inr float_le_zero_iff)
  qed
  from 1 2 3 show ?thesis by blast
qed

text \<open>
  C7. The price is set exactly for \<^verbatim>\<open>LIMIT\<close> and \<^verbatim>\<open>STOP_LIMIT\<close> orders and the stop price
  exactly for \<^verbatim>\<open>STOP_LIMIT\<close> orders, and a field that is set holds a positive float or a
  NaN (lemma \<open>validated_optional_fields\<close>). The NaN is where the claim fails: a limit
  order whose price is the text \<^verbatim>\<open>nan\<close> is validated, with a price that is not a
  positive float.
\<close>

theorem limit_order_keeps_nan_price:
  "validate_order_params U args_limit_nan =
     Inr \<lparr>symbol = str ''BTCUSDT'', side = str ''BUY'', order_type = str ''LIMIT'',
          quantity = binary64 False 1 1000, price = Some NaN, stop_price = None\<rparr> \<and>
   \<not> float_gt_zero NaN"
  by (simp add: validate_args_limit_nan)

subsection \<open>Payload\<close>

text \<open>
  C9. The order type of a validated order is \<^verbatim>\<open>MARKET\<close>, \<^verbatim>\<open>LIMIT\<close> or \<^verbatim>\<open>STOP_LIMIT\<close>, so
  \<^verbatim>\<open>_build_order_payload\<close> returns a payload for it and never raises its error for an
  unsupported order type.
\<close>

theorem validated_order_type_is_supported:
  assumes "validate_order_params U a = Inr p"
  shows "order_type p \<in> {str ''MARKET'', str ''LIMIT'', str ''STOP_LIMIT''} \<and>
         (\<exists>payload. build_order_payload p = Inr payload)"
proof -
  have "validate_order_type U (arg_type a) = Inr (order_type p)"
    using validate_order_params_Inr [OF assms] by blast
  then have t: "order_type p \<in> {str ''MARKET'', str ''LIMIT'', str ''STOP_LIMIT''}"
    by (rule validate_order_type_canonical)
  then have "\<exists>payload. build_order_payload p = Inr payload"
    by (auto simp add: build_order_payload_def Let_def)
  with t show ?thesis by blast
qed

theorem validated_order_type_is_supported_witness:
  "validate_order_params ucd_latin1 args_stop_limit =
     Inr \<lparr>symbol = str ''BTCUSDT'', side = str ''BUY'', order_type = str ''STOP_LIMIT'',
          quantity = binary64 False 1 100, price = Some (Finite 50000),
          stop_price = Some (Finite 49000)\<rparr> \<and>
   (\<exists>payload. build_order_payload
      \<lparr>symbol = str ''BTCUSDT'', side = str ''BUY'', order_type = str ''STOP_LIMIT'',
       quantity = binary64 False 1 100, price = Some (Finite 50000),
       stop_price = Some (Finite 49000)\<rparr> = Inr payload)"
  using validated_order_type_is_supported [OF validate_args_stop_limit [of ucd_latin1]]
    validate_args_stop_limit [of ucd_latin1]
  by blast

text \<open>
  C1. The payload is a function of the intent and follows the table: a \<^verbatim>\<open>MARKET\<close> intent
  gives the type \<^verbatim>\<open>MARKET\<close> and no further key; a \<^verbatim>\<open>LIMIT\<close> intent the type \<^verbatim>\<open>LIMIT\<close>,
  \<^verbatim>\<open>timeInForce\<close> \<^verbatim>\<open>GTC\<close> and the intent's price; a \<^verbatim>\<open>STOP_LIMIT\<close> intent the type
  \<^verbatim>\<open>STOP\<close>, \<^verbatim>\<open>timeInForce\<close> \<^verbatim>\<open>GTC\<close>, the intent's price and its stop price. Symbol,
  side and quantity are those of the intent. Each payload is given as the whole
  dictionary, so it has no other key.
\<close>

theorem build_order_payload_table:
  "(order_type p = str ''MARKET'' \<longrightarrow>
      build_order_payload p =
        Inr [''symbol'' \<mapsto> PyStr (symbol p), ''side'' \<mapsto> PyStr (side p),
             ''type'' \<mapsto> PyStr (str ''MARKET''), ''quantity'' \<mapsto> PyFloat (quantity p)]) \<and>
   (order_type p = str ''LIMIT'' \<and> price p = Some pr \<longrightarrow>
      build_order_payload p =
        Inr [''symbol'' \<mapsto> PyStr (symbol p), ''side'' \<mapsto> PyStr (side p),
             ''type'' \<mapsto> PyStr (str ''LIMIT''), ''quantity'' \<mapsto> PyFloat (quantity p),
             ''timeInForce'' \<mapsto> PyStr (str ''GTC''), ''price'' \<mapsto> PyFloat pr]) \<and>
   (order_type p = str ''STOP_LIMIT'' \<and> price p = Some pr \<and> stop_price p = Some sp \<longrightarrow>
      build_order_payload p =
        Inr [''symbol'' \<mapsto> PyStr (symbol p), ''side'' \<mapsto> PyStr (side p),
             ''type'' \<mapsto> PyStr (str ''STOP''), ''quantity'' \<mapsto> PyFloat (quantity p),
             ''timeInForce'' \<mapsto> PyStr (str ''GTC''), ''price'' \<mapsto> PyFloat pr,
             ''stopPrice'' \<mapsto> PyFloat sp])"
  by (auto simp add: build_order_payload_def Let_def opt_float_def str_def fun_eq_iff)

theorem build_order_payload_table_witness:
  "build_order_payload intent_market =
     Inr [''symbol'' \<mapsto> PyStr (str ''BTCUSDT''), ''side'' \<mapsto> PyStr (str ''BUY''),
          ''type'' \<mapsto> PyStr (str ''MARKET''), ''quantity'' \<mapsto> PyFloat (binary64 False 1 1000)] \<and>
   build_order_payload intent_limit =
     Inr [''symbol'' \<mapsto> PyStr (str ''BTCUSDT''), ''side'' \<mapsto> PyStr (str ''SELL''),
          ''type'' \<mapsto> PyStr (str ''LIMIT''), ''quantity'' \<mapsto> PyFloat (binary64 False 1 100),
          ''timeInForce'' \<mapsto> PyStr (str ''GTC''), ''price'' \<mapsto> PyFloat (Finite 50000)] \<and>
   build_order_payload intent_stop_limit =
     Inr [''symbol'' \<mapsto> PyStr (str ''BTCUSDT''), ''side'' \<mapsto> PyStr (str ''BUY''),
          ''type'' \<mapsto> PyStr (str ''STOP''), ''quantity'' \<mapsto> PyFloat (binary64 False 1 100),
          ''timeInForce'' \<mapsto> PyStr (str ''GTC''), ''price'' \<mapsto> PyFloat (Finite 50000),
          ''stopPrice'' \<mapsto> PyFloat (Finite 49000)]"
proof -
  have c1: "build_order_payload intent_market =
     Inr [''symbol'' \<mapsto> PyStr (str ''BTCUSDT''), ''side'' \<mapsto> PyStr (str ''BUY''),
          ''type'' \<mapsto> PyStr (str ''MARKET''), ''quantity'' \<mapsto> PyFloat (binary64 False 1 1000)]"
    using build_order_payload_table [of intent_market]
    by (simp add: intent_market_def)
  have c2: "build_order_payload intent_limit =
     Inr [''symbol'' \<mapsto> PyStr (str ''BTCUSDT''), ''side'' \<mapsto> PyStr (str ''SELL''),
          ''type'' \<mapsto> PyStr (str ''LIMIT''), ''quantity'' \<mapsto> PyFloat (binary64 False 1 100),
          ''timeInForce'' \<mapsto> PyStr (str ''GTC''), ''price'' \<mapsto> PyFloat (Finite 50000)]"
    using build_order_payload_table [of intent_limit "Finite 50000"]
    by (simp add: intent_limit_def)
  have c3: "build_order_payload intent_stop_limit =
     Inr [''symbol'' \<mapsto> PyStr (str ''BTCUSDT''), ''side'' \<mapsto> PyStr (str ''BUY''),
          ''type'' \<mapsto> PyStr (str ''STOP''), ''quantity'' \<mapsto> PyFloat (binary64 False 1 100),
          ''timeInForce'' \<mapsto> PyStr (str ''GTC''), ''price'' \<mapsto> PyFloat (Finite 50000),
          ''stopPrice'' \<mapsto> PyFloat (Finite 49000)]"
    using build_order_payload_table [of intent_stop_limit "Finite 50000" "Finite 49000"]
    by (simp add: intent_stop_limit_def)
  from c1 c2 c3 show ?thesis by blast
qed

subsection \<open>Placing the order\<close>

text \<open>
  C6. Whatever exception the client raises, of the three Binance classes or of any other
  class derived from \<^verbatim>\<open>Exception\<close>, \<^verbatim>\<open>place_order\<close> raises a \<^verbatim>\<open>TradingBotError\<close> whose
  message ends with the text of the client's exception; a response of the client is
  returned as it is; and \<^verbatim>\<open>place_order\<close> raises nothing but a \<^verbatim>\<open>TradingBotError\<close>.
\<close>

theorem place_order_wraps_client_errors:
  "(build_order_payload params = Inr request \<and>
      futures_create_order request = Inl (Raised cls msg) \<longrightarrow>
      place_order futures_create_order params =
        Inl (TradingBotError
          ((if cls \<in> {BinanceAPIException, BinanceOrderException, BinanceRequestException}
            then str ''Binance API error: ''
            else str ''Unexpected error while placing order: '') @ msg))) \<and>
   (build_order_payload params = Inr request \<and> futures_create_order request = Inr response \<longrightarrow>
      place_order futures_create_order params = Inr response) \<and>
   (\<forall>e. place_order futures_create_order params = Inl e \<longrightarrow> (\<exists>m. e = TradingBotError m))"
proof (intro conjI allI impI)
  assume "build_order_payload params = Inr request \<and>
      futures_create_order request = Inl (Raised cls msg)"
  then show "place_order futures_create_order params =
        Inl (TradingBotError
          ((if cls \<in> {BinanceAPIException, BinanceOrderException, BinanceRequestException}
            then str ''Binance API error: ''
            else str ''Unexpected error while placing order: '') @ msg))"
    by (simp add: place_order_def)
next
  assume "build_order_payload params = Inr request \<and> futures_create_order request = Inr response"
  then show "place_order futures_create_order params = Inr response"
    by (simp add: place_order_def)
next
  fix e
  assume "place_order futures_create_order params = Inl e"
  then show "\<exists>m. e = TradingBotError m"
    by (auto simp add: place_order_def build_order_payload_def Let_def
        split: sum.splits client_exc.splits if_splits)
qed

theorem place_order_wraps_client_errors_witness:
  "place_order client_rejecting intent_market =
     Inl (TradingBotError
       (str ''Binance API error: '' @ str ''APIError(code=-2019): Margin is insufficient.''))"
proof -
  have b: "build_order_payload intent_market =
      Inr [''symbol'' \<mapsto> PyStr (symbol intent_market), ''side'' \<mapsto> PyStr (side intent_market),
           ''type'' \<mapsto> PyStr (str ''MARKET''), ''quantity'' \<mapsto> PyFloat (quantity intent_market)]"
    by (auto simp add: build_order_payload_def intent_market_def fun_eq_iff)
  have c: "client_rejecting
      [''symbol'' \<mapsto> PyStr (symbol intent_market), ''side'' \<mapsto> PyStr (side intent_market),
       ''type'' \<mapsto> PyStr (str ''MARKET''), ''quantity'' \<mapsto> PyFloat (quantity intent_market)] =
      Inl (Raised BinanceAPIException (str ''APIError(code=-2019): Margin is insufficient.''))"
    by (simp add: client_rejecting_def)
  show ?thesis
    using place_order_wraps_client_errors [where params = intent_market
        and futures_create_order = client_rejecting and cls = BinanceAPIException
        and msg = "str ''APIError(code=-2019): Margin is insufficient.''"
        and request = "[''symbol'' \<mapsto> PyStr (symbol intent_market),
           ''side'' \<mapsto> PyStr (side intent_market),
           ''type'' \<mapsto> PyStr (str ''MARKET''),
           ''quantity'' \<mapsto> PyFloat (quantity intent_market)]"] b c
    by simp
qed

subsection \<open>Credentials\<close>

text \<open>
  C10. \<^verbatim>\<open>resolve_credentials\<close> returns the key \<open>k\<close> and the secret \<open>s\<close> exactly when both
  are non-empty and each is the command-line value, or the value of the environment
  variable when the command-line value is absent or empty; in every other case it
  raises the configuration error.
\<close>

theorem resolve_credentials_fallback:
  "(resolve_credentials args getenv = Inr (k, s) \<longleftrightarrow>
      k \<noteq> [] \<and> s \<noteq> [] \<and>
      (arg_api_key args = Some k \<or>
         arg_api_key args \<in> {None, Some []} \<and> getenv ''BINANCE_API_KEY'' = Some k) \<and>
      (arg_api_secret args = Some s \<or>
         arg_api_secret args \<in> {None, Some []} \<and> getenv ''BINANCE_API_SECRET'' = Some s)) \<and>
   ((\<exists>k s. resolve_credentials args getenv = Inr (k, s)) \<or>
      resolve_credentials args getenv = Inl (TradingBotError credentials_message))"
  by (cases "arg_api_key args"; cases "arg_api_secret args";
      cases "getenv ''BINANCE_API_KEY''"; cases "getenv ''BINANCE_API_SECRET''")
     (auto simp add: resolve_credentials_def py_or_def Let_def)

theorem resolve_credentials_fallback_witness:
  "resolve_credentials (args_market\<lparr>arg_api_key := Some (str ''cli-key''), arg_api_secret := Some []\<rparr>)
     env_example = Inr (str ''cli-key'', str ''env-secret'') \<and>
   resolve_credentials (args_market\<lparr>arg_api_key := Some (str ''cli-key'')\<rparr>) (\<lambda>name. Some []) =
     Inl (TradingBotError credentials_message)"
proof -
  have c1: "resolve_credentials
      (args_market\<lparr>arg_api_key := Some (str ''cli-key''), arg_api_secret := Some []\<rparr>)
      env_example = Inr (str ''cli-key'', str ''env-secret'')"
    using resolve_credentials_fallback [of
        "args_market\<lparr>arg_api_key := Some (str ''cli-key''), arg_api_secret := Some []\<rparr>"
        env_example "str ''cli-key''" "str ''env-secret''"]
    by (simp add: args_market_def env_example_def str_def)
  have "\<not> (\<exists>k s. resolve_credentials (args_market\<lparr>arg_api_key := Some (str ''cli-key'')\<rparr>)
      (\<lambda>name. Some []) = Inr (k, s))"
  proof
    assume "\<exists>k s. resolve_credentials (args_market\<lparr>arg_api_key := Some (str ''cli-key'')\<rparr>)
      (\<lambda>name. Some []) = Inr (k, s)"
    then obtain k s where "resolve_credentials (args_market\<lparr>arg_api_key := Some (str ''cli-key'')\<rparr>)
      (\<lambda>name. Some []) = Inr (k, s)" by blast
    then show False
      using resolve_credentials_fallback [of "args_market\<lparr>arg_api_key := Some (str ''cli-key'')\<rparr>"
          "\<lambda>name. Some []" k s]
      by (auto simp add: args_market_def)
  qed
  then have c2: "resolve_credentials (args_market\<lparr>arg_api_key := Some (str ''cli-key'')\<rparr>)
      (\<lambda>name. Some []) = Inl (TradingBotError credentials_message)"
    using resolve_credentials_fallback [of "args_market\<lparr>arg_api_key := Some (str ''cli-key'')\<rparr>"
        "\<lambda>name. Some []"]
    by blast
  from c1 c2 show ?thesis by blast
qed

end
